theory Spec2Isabelle
  imports Main "HOL-Library.Sublist"
begin

section \<open>The GitHub client of go-libs/github and its repository cache\<close>

text \<open>
  A shallow embedding of the Go package \<open>github\<close>: the authenticated client
  (\<open>NewClient\<close> and the typed operations that delegate to the request pipeline) and the
  repository cache (\<open>NewRepositoryCache\<close>, \<open>repositoryCache.Load\<close>).

  Conventions of the embedding:
  \<^item> a Go struct is a record, with the field names of the source. Record fields are global
    names in Isabelle, so a field name that occurs in two structs is kept for one of them
    and marked for the others (\<open>Name'\<close> of \<open>CreateReleaseRequest\<close>, \<open>LicenseName\<close> of the
    anonymous licence struct, the \<open>Client\<close> prefix of the pipeline's own configuration);
  \<^item> a Go function returning \<open>(T, error)\<close> returns a pair whose second component is an
    \<open>error option\<close>, \<open>None\<close> being the nil error: Go returns both components on every
    path, and what the first one holds beside an error is part of the behaviour;
  \<^item> a pointer result \<open>*T\<close> is a \<open>T option\<close>, \<open>None\<close> being the nil pointer;
  \<^item> a slice is a list; the nil slice and the empty slice are both \<open>[]\<close>;
  \<^item> effects are explicit: every operation takes the state of the outside world and
    returns it. The \<open>context.Context\<close> argument (cancellation and deadlines) is left out.
\<close>

subsection \<open>JSON documents and errors\<close>

text \<open>
  A body on the wire is represented by its JSON syntax tree. Numbers are integers, which is
  all that the records of this package read; the members of an object are kept in the
  order of the document.
\<close>

datatype json =
    JNull
  | JBool bool
  | JNumber int
  | JString string
  | JArray "json list"
  | JObject "(string \<times> json) list"

text \<open>
  Go errors as values. \<open>Failure\<close> is an error of a collaborator (the token source, the
  transport), with its text. \<open>Wrapped p e\<close> is the error built by
  \<open>fmt.Errorf(p + "%w", e)\<close>: its text is \<open>p\<close> followed by the text of \<open>e\<close>, and it
  unwraps to \<open>e\<close>. \<open>APIError\<close> carries the status and the body of a response. The others
  are the errors of decoding a body and of the durable store.
\<close>

datatype error =
    Failure string
  | Wrapped string error
  | APIError int "json option"
  | SerializationError string
  | UnmarshalTypeError string
  | CacheStoreError string

fun Unwrap :: "error \<Rightarrow> error option" where
  "Unwrap (Wrapped p e) = Some e"
| "Unwrap e = None"

subsection \<open>Requests, credentials and the client configuration\<close>

text \<open>
  \<open>http.Header\<close> maps a canonical header name to its list of values. \<open>Set\<close> replaces
  the values of a name by the single given one, \<open>Get\<close> reads the first value, the empty
  string when there is none. (\<open>Set\<close> canonicalises the name first; \<open>Authorization\<close>, the
  only name set here, is canonical already.)
\<close>

type_synonym Header = "string \<rightharpoonup> string list"

definition Header_Set :: "Header \<Rightarrow> string \<Rightarrow> string \<Rightarrow> Header" where
  "Header_Set h k v = h(k \<mapsto> [v])"

definition Header_Get :: "Header \<Rightarrow> string \<Rightarrow> string" where
  "Header_Get h k = (case h k of None \<Rightarrow> [] | Some [] \<Rightarrow> [] | Some (v # vs) \<Rightarrow> v)"

record Request =
  Method :: string
  URL :: string
  Header :: Header
  Payload :: "json option"

record Response =
  StatusCode :: int
  Content :: "json option"

text \<open>The two fields of \<open>oauth2.Token\<close> that the client reads.\<close>

record oauth2_Token =
  TokenType :: string
  AccessToken :: string

text \<open>
  The collaborators act on the outside world \<open>'w\<close>: the token source may refresh, the
  transport talks to the remote. A request visitor updates the request it is given and
  may fail. A token source answers with an error or with a token (one that answers with
  neither, a nil token and a nil error, makes the visitor of \<open>NewClient\<close> dereference
  nil; such a source is not a value of this type).
\<close>

type_synonym 'w GitHubTokenSource = "'w \<Rightarrow> (error + oauth2_Token) \<times> 'w"

type_synonym 'w RoundTripper = "Request \<Rightarrow> 'w \<Rightarrow> (error + Response) \<times> 'w"

type_synonym 'w RequestVisitor = "Request \<Rightarrow> 'w \<Rightarrow> (Request \<times> error option) \<times> 'w"

text \<open>
  \<open>GitHubConfig\<close> embeds the interface \<open>GitHubTokenSource\<close>, whose method is \<open>Token\<close>.
  Durations are \<open>time.Duration\<close> values, integers counting nanoseconds. A nil
  \<open>transport\<close> selects the default transport of the HTTP library; the model holds the
  transport in effect.
\<close>

record 'w GitHubConfig =
  Token :: "'w GitHubTokenSource"
  RetryTimeout :: int
  HTTPTimeout :: int
  InsecureSkipVerify :: bool
  DebugHeaders :: bool
  DebugTruncateBytes :: int
  RateLimitPerSecond :: int
  transport :: "'w RoundTripper"

text \<open>
  Modelled from the spec: \<open>httpclient.ClientConfig\<close>, \<open>httpclient.ApiClient\<close> and
  \<open>httpclient.NewApiClient\<close>, which belong to the HTTP client library the package is
  built on and are not among the sources. The fields of the configuration are those that
  \<open>NewClient\<close> sets; the client owns the configuration it was made from for its lifetime.
\<close>

record 'w ClientConfig =
  Visitors :: "'w RequestVisitor list"
  ClientRetryTimeout :: int
  ClientHTTPTimeout :: int
  ClientInsecureSkipVerify :: bool
  ClientDebugHeaders :: bool
  ClientDebugTruncateBytes :: int
  ClientRateLimitPerSecond :: int
  Transport :: "'w RoundTripper"

record 'w ApiClient =
  config :: "'w ClientConfig"

definition NewApiClient :: "'w ClientConfig \<Rightarrow> 'w ApiClient" where
  "NewApiClient cc = \<lparr>config = cc\<rparr>"

record 'w GitHubClient =
  api :: "'w ApiClient"
  cfg :: "'w GitHubConfig"

definition gitHubAPI :: string where
  "gitHubAPI = ''https://api.github.com''"

text \<open>
  \<open>NewClient\<close>: the single visitor asks the token source for a token, fails with the
  source's error wrapped as \<open>token: ...\<close>, and otherwise sets the Authorization header to
  \<open>fmt.Sprintf("%s %s", token.TokenType, token.AccessToken)\<close>.
\<close>

definition NewClient :: "'w GitHubConfig \<Rightarrow> 'w GitHubClient" where
  "NewClient conf =
     \<lparr>api = NewApiClient
        \<lparr>Visitors = [\<lambda>r w.
           (case Token conf w of
              (Inl err, w') \<Rightarrow> ((r, Some (Wrapped ''token: '' err)), w')
            | (Inr token, w') \<Rightarrow>
                (let auth = TokenType token @ '' '' @ AccessToken token
                 in ((r\<lparr>Header := Header_Set (Header r) ''Authorization'' auth\<rparr>, None), w')))],
         ClientRetryTimeout = RetryTimeout conf,
         ClientHTTPTimeout = HTTPTimeout conf,
         ClientInsecureSkipVerify = InsecureSkipVerify conf,
         ClientDebugHeaders = DebugHeaders conf,
         ClientDebugTruncateBytes = DebugTruncateBytes conf,
         ClientRateLimitPerSecond = RateLimitPerSecond conf,
         Transport = transport conf\<rparr>,
      cfg = conf\<rparr>"

subsection \<open>JSON encoding and decoding\<close>

text \<open>
  The functions of this subsection follow \<open>encoding/json\<close> of the Go standard library.

  \<open>json.Unmarshal\<close> fills a target in place: an unmarshaler takes the JSON value and the
  target's old value and returns the new value, with the first error met. A JSON null
  leaves a string, number, boolean or struct as it is and sets a slice to nil; a value of
  the wrong kind leaves the target as it is and is reported as an
  \<open>UnmarshalTypeError\<close>, after which decoding goes on.
\<close>

type_synonym 'a unmarshaler = "json \<Rightarrow> 'a \<Rightarrow> 'a \<times> error option"

definition first_error :: "error option \<Rightarrow> error option \<Rightarrow> error option" where
  "first_error a b = (case a of None \<Rightarrow> b | Some e \<Rightarrow> Some e)"

definition unmarshal_string :: "string unmarshaler" where
  "unmarshal_string v old =
     (case v of JString s \<Rightarrow> (s, None) | JNull \<Rightarrow> (old, None)
      | _ \<Rightarrow> (old, Some (UnmarshalTypeError ''string'')))"

text \<open>Go's \<open>int\<close> has 64 bits; a number outside its range is a type error.\<close>

definition unmarshal_int :: "int unmarshaler" where
  "unmarshal_int v old =
     (case v of
        JNumber n \<Rightarrow>
          (if - (2 ^ 63) \<le> n \<and> n < 2 ^ 63 then (n, None)
           else (old, Some (UnmarshalTypeError ''int'')))
      | JNull \<Rightarrow> (old, None)
      | _ \<Rightarrow> (old, Some (UnmarshalTypeError ''int'')))"

definition unmarshal_bool :: "bool unmarshaler" where
  "unmarshal_bool v old =
     (case v of JBool b \<Rightarrow> (b, None) | JNull \<Rightarrow> (old, None)
      | _ \<Rightarrow> (old, Some (UnmarshalTypeError ''bool'')))"

text \<open>
  A JSON array replaces the slice; each element is decoded into a fresh zero value (every
  slice target of this package starts out nil).
\<close>

fun decode_elements :: "'a unmarshaler \<Rightarrow> 'a \<Rightarrow> json list \<Rightarrow> 'a list \<times> error option" where
  "decode_elements elem z [] = ([], None)"
| "decode_elements elem z (x # xs) =
     (case elem x z of (a, e) \<Rightarrow>
        (case decode_elements elem z xs of (as, e') \<Rightarrow> (a # as, first_error e e')))"

definition unmarshal_slice :: "'a unmarshaler \<Rightarrow> 'a \<Rightarrow> 'a list unmarshaler" where
  "unmarshal_slice elem z v old =
     (case v of JArray xs \<Rightarrow> decode_elements elem z xs | JNull \<Rightarrow> ([], None)
      | _ \<Rightarrow> (old, Some (UnmarshalTypeError ''slice'')))"

text \<open>
  A JSON object is decoded into a struct member by member, in the order of the document,
  so that a repeated key is decoded again. A key selects the field whose \<open>json\<close> tag it
  equals, or else equals up to the case of letters (ASCII letters here); a key that
  selects no field is skipped.
\<close>

definition to_lower :: "char \<Rightarrow> char" where
  "to_lower c =
     (case map_of (zip ''ABCDEFGHIJKLMNOPQRSTUVWXYZ'' ''abcdefghijklmnopqrstuvwxyz'') c of
        Some l \<Rightarrow> l | None \<Rightarrow> c)"

definition equalFold :: "string \<Rightarrow> string \<Rightarrow> bool" where
  "equalFold s t = (map to_lower s = map to_lower t)"

fun decode_members :: "(string \<Rightarrow> json \<Rightarrow> 'a \<Rightarrow> 'a \<times> error option) \<Rightarrow>
    (string \<times> json) list \<Rightarrow> 'a \<Rightarrow> 'a \<times> error option" where
  "decode_members field [] a = (a, None)"
| "decode_members field ((k, v) # kvs) a =
     (case field k v a of (a', e) \<Rightarrow>
        (case decode_members field kvs a' of (a'', e') \<Rightarrow> (a'', first_error e e')))"

definition unmarshal_struct :: "(string \<Rightarrow> json \<Rightarrow> 'a \<Rightarrow> 'a \<times> error option) \<Rightarrow> 'a unmarshaler" where
  "unmarshal_struct field v old =
     (case v of JObject kvs \<Rightarrow> decode_members field kvs old | JNull \<Rightarrow> (old, None)
      | _ \<Rightarrow> (old, Some (UnmarshalTypeError ''struct'')))"

definition set_field :: "'f unmarshaler \<Rightarrow> json \<Rightarrow> 'f \<Rightarrow> ('f \<Rightarrow> 'a) \<Rightarrow> 'a \<times> error option" where
  "set_field u v old upd = (case u v old of (x, e) \<Rightarrow> (upd x, e))"

text \<open>
  \<open>json.Marshal\<close> of a struct writes its fields in the order of their declaration. A
  field tagged \<open>omitempty\<close> is left out when it holds the empty value of its type: the
  empty string, \<open>false\<close>.
\<close>

definition omitempty_string :: "string \<Rightarrow> string \<Rightarrow> (string \<times> json) list" where
  "omitempty_string k s = (if s = [] then [] else [(k, JString s)])"

definition omitempty_bool :: "string \<Rightarrow> bool \<Rightarrow> (string \<times> json) list" where
  "omitempty_bool k b = (if b then [(k, JBool True)] else [])"

text \<open>
  What the model needs to know of a record type that is declared in another file of the
  package (\<open>Release\<close>, \<open>PullRequest\<close>, \<open>RepositoryCommit\<close>): its zero value and how
  \<open>json.Unmarshal\<close> fills it.
\<close>

record 'a GoType =
  zero :: 'a
  unmarshal :: "'a unmarshaler"

subsection \<open>The request pipeline\<close>

text \<open>
  The state the pipeline acts on: the outside world, and the requests handed to the
  transport so far, that is, the network calls made.
\<close>

record 'w net =
  world :: 'w
  sent :: "Request list"

text \<open>
  Modelled from the spec: the visitors of the pipeline, a chain of request-mutation
  functions applied in order before dispatch, each capable of failing the call (sections
  4.1 and 9 of the specification). The chain stops at the first visitor that fails.
\<close>

fun run_visitors :: "'w RequestVisitor list \<Rightarrow> 'w RequestVisitor" where
  "run_visitors [] r w = ((r, None), w)"
| "run_visitors (v # vs) r w =
     (case v r w of
        ((r', Some err), w') \<Rightarrow> ((r', Some err), w')
      | ((r', None), w') \<Rightarrow> run_visitors vs r' w')"

text \<open>
  Modelled from the spec: the request pipeline \<open>httpclient.ApiClient.Do\<close>, which belongs
  to the HTTP client library and is not among the sources. After section 4.1 of the
  specification: the request is built from the verb, the URL and the serialised request
  data; the visitors run before dispatch, and a failing visitor aborts the call with its
  error, with no network call; the transport (which owns retries, timeouts and the rate
  limit) answers with an error or a response; a response whose status is not 2xx becomes
  an API error carrying status and body and is never unmarshalled; the body of a 2xx
  response is unmarshalled into the target, when one is given, and a body that is no JSON
  document is a serialisation error.

  The options \<open>WithRequestData\<close> and \<open>WithResponseUnmarshal(&target)\<close> of the source are
  the arguments \<open>data\<close>, \<open>um\<close> and \<open>target\<close>; the target as the call leaves it is returned
  beside the error.
\<close>

definition Do :: "'w ApiClient \<Rightarrow> string \<Rightarrow> string \<Rightarrow> json option \<Rightarrow>
    'a unmarshaler option \<Rightarrow> 'a \<Rightarrow> 'w net \<Rightarrow> ('a \<times> error option) \<times> 'w net" where
  "Do a method url data um target st =
     (case run_visitors (Visitors (config a))
             \<lparr>Method = method, URL = url, Header = Map.empty, Payload = data\<rparr> (world st) of
        ((r, Some err), w) \<Rightarrow> ((target, Some err), st\<lparr>world := w\<rparr>)
      | ((r, None), w) \<Rightarrow>
          (case Transport (config a) r w of
             (Inl err, w') \<Rightarrow> ((target, Some err), \<lparr>world = w', sent = sent st @ [r]\<rparr>)
           | (Inr resp, w') \<Rightarrow>
               (if 200 \<le> StatusCode resp \<and> StatusCode resp < 300 then
                  (case um of
                     None \<Rightarrow> ((target, None), \<lparr>world = w', sent = sent st @ [r]\<rparr>)
                   | Some u \<Rightarrow>
                       (case Content resp of
                          None \<Rightarrow> ((target, Some (SerializationError ''response body'')),
                                    \<lparr>world = w', sent = sent st @ [r]\<rparr>)
                        | Some body \<Rightarrow> (u body target, \<lparr>world = w', sent = sent st @ [r]\<rparr>)))
                else ((target, Some (APIError (StatusCode resp) (Content resp))),
                      \<lparr>world = w', sent = sent st @ [r]\<rparr>))))"

subsection \<open>The operations of the client\<close>

record CreateReleaseRequest =
  TagName :: string
  Name' :: string
  Body :: string
  Draft :: bool
  Prerelease :: bool
  GenerateReleaseNotes :: bool
  DiscussionCategoryName :: string

text \<open>The JSON form of a \<open>CreateReleaseRequest\<close>, after its field tags.\<close>

definition CreateReleaseRequest_members :: "CreateReleaseRequest \<Rightarrow> (string \<times> json) list" where
  "CreateReleaseRequest_members req =
     (omitempty_string ''tag_name'' (TagName req)
      @ omitempty_string ''name'' (Name' req)
      @ omitempty_string ''body'' (Body req)
      @ omitempty_bool ''draft'' (Draft req)
      @ omitempty_bool ''prerelease'' (Prerelease req)
      @ omitempty_bool ''generate_release_notes'' (GenerateReleaseNotes req)
      @ omitempty_string ''discussion_category_name'' (DiscussionCategoryName req))"

definition CreateReleaseRequest_json :: "CreateReleaseRequest \<Rightarrow> json" where
  "CreateReleaseRequest_json req = JObject (CreateReleaseRequest_members req)"

definition CreateRelease :: "'rel GoType \<Rightarrow> 'w GitHubClient \<Rightarrow> string \<Rightarrow> string \<Rightarrow>
    CreateReleaseRequest \<Rightarrow> 'w net \<Rightarrow> ('rel option \<times> error option) \<times> 'w net" where
  "CreateRelease Release c org repo req st =
     (let url = gitHubAPI @ ''/repos/'' @ org @ ''/'' @ repo @ ''/releases''
      in case Do (api c) ''POST'' url (Some (CreateReleaseRequest_json req))
                (Some (unmarshal Release)) (zero Release) st of
           ((res, err), st') \<Rightarrow> ((Some res, err), st'))"

record License =
  LicenseName :: string

record Repo =
  Name :: string
  Description :: string
  Langauge :: string
  DefaultBranch :: string
  Stars :: int
  IsFork :: bool
  IsArchived :: bool
  Topics :: "string list"
  HtmlURL :: string
  CloneURL :: string
  SshURL :: string
  License :: License

type_synonym Repositories = "Repo list"

definition zero_License :: License where
  "zero_License = \<lparr>LicenseName = []\<rparr>"

definition zero_Repo :: Repo where
  "zero_Repo = \<lparr>Name = [], Description = [], Langauge = [], DefaultBranch = [], Stars = 0,
     IsFork = False, IsArchived = False, Topics = [], HtmlURL = [], CloneURL = [],
     SshURL = [], License = zero_License\<rparr>"

definition License_member :: "string \<Rightarrow> json \<Rightarrow> License \<Rightarrow> License \<times> error option" where
  "License_member k v l =
     (if equalFold k ''name'' then
        set_field unmarshal_string v (LicenseName l) (\<lambda>x. l\<lparr>LicenseName := x\<rparr>)
      else (l, None))"

definition Repo_member :: "string \<Rightarrow> json \<Rightarrow> Repo \<Rightarrow> Repo \<times> error option" where
  "Repo_member k v r =
     (if equalFold k ''name'' then
        set_field unmarshal_string v (Name r) (\<lambda>x. r\<lparr>Name := x\<rparr>)
      else if equalFold k ''description'' then
        set_field unmarshal_string v (Description r) (\<lambda>x. r\<lparr>Description := x\<rparr>)
      else if equalFold k ''language'' then
        set_field unmarshal_string v (Langauge r) (\<lambda>x. r\<lparr>Langauge := x\<rparr>)
      else if equalFold k ''default_branch'' then
        set_field unmarshal_string v (DefaultBranch r) (\<lambda>x. r\<lparr>DefaultBranch := x\<rparr>)
      else if equalFold k ''stargazers_count'' then
        set_field unmarshal_int v (Stars r) (\<lambda>x. r\<lparr>Stars := x\<rparr>)
      else if equalFold k ''fork'' then
        set_field unmarshal_bool v (IsFork r) (\<lambda>x. r\<lparr>IsFork := x\<rparr>)
      else if equalFold k ''archived'' then
        set_field unmarshal_bool v (IsArchived r) (\<lambda>x. r\<lparr>IsArchived := x\<rparr>)
      else if equalFold k ''topics'' then
        set_field (unmarshal_slice unmarshal_string []) v (Topics r) (\<lambda>x. r\<lparr>Topics := x\<rparr>)
      else if equalFold k ''html_url'' then
        set_field unmarshal_string v (HtmlURL r) (\<lambda>x. r\<lparr>HtmlURL := x\<rparr>)
      else if equalFold k ''clone_url'' then
        set_field unmarshal_string v (CloneURL r) (\<lambda>x. r\<lparr>CloneURL := x\<rparr>)
      else if equalFold k ''ssh_url'' then
        set_field unmarshal_string v (SshURL r) (\<lambda>x. r\<lparr>SshURL := x\<rparr>)
      else if equalFold k ''license'' then
        set_field (unmarshal_struct License_member) v (License r) (\<lambda>x. r\<lparr>License := x\<rparr>)
      else (r, None))"

definition unmarshal_Repo :: "Repo unmarshaler" where
  "unmarshal_Repo = unmarshal_struct Repo_member"

definition unmarshal_Repositories :: "Repositories unmarshaler" where
  "unmarshal_Repositories = unmarshal_slice unmarshal_Repo zero_Repo"

definition GetRepo :: "'w GitHubClient \<Rightarrow> string \<Rightarrow> string \<Rightarrow> 'w net \<Rightarrow>
    (Repo \<times> error option) \<times> 'w net" where
  "GetRepo c org name st =
     (let url = gitHubAPI @ ''/repos/'' @ org @ ''/'' @ name
      in Do (api c) ''GET'' url None (Some unmarshal_Repo) zero_Repo st)"

definition ListRepositories :: "'w GitHubClient \<Rightarrow> string \<Rightarrow> 'w net \<Rightarrow>
    (Repositories \<times> error option) \<times> 'w net" where
  "ListRepositories c org st =
     (let url = gitHubAPI @ ''/users/'' @ org @ ''/repos''
      in Do (api c) ''GET'' url None (Some unmarshal_Repositories) [] st)"

text \<open>The anonymous response struct of \<open>CompareCommits\<close>, with its one field.\<close>

record 'c compare_response =
  Commits :: "'c list"

definition compare_response_member :: "'c GoType \<Rightarrow> string \<Rightarrow> json \<Rightarrow>
    'c compare_response \<Rightarrow> 'c compare_response \<times> error option" where
  "compare_response_member RepositoryCommit k v r =
     (if equalFold k ''commits'' then
        set_field (unmarshal_slice (unmarshal RepositoryCommit) (zero RepositoryCommit)) v
          (Commits r) (\<lambda>x. r\<lparr>Commits := x\<rparr>)
      else (r, None))"

definition CompareCommits :: "'c GoType \<Rightarrow> 'w GitHubClient \<Rightarrow> string \<Rightarrow> string \<Rightarrow>
    string \<Rightarrow> string \<Rightarrow> 'w net \<Rightarrow> ('c list \<times> error option) \<times> 'w net" where
  "CompareCommits RepositoryCommit c org repo base head st =
     (let path = gitHubAPI @ ''/repos/'' @ org @ ''/'' @ repo @ ''/compare/''
                   @ base @ ''...'' @ head
      in case Do (api c) ''GET'' path None
                (Some (unmarshal_struct (compare_response_member RepositoryCommit)))
                \<lparr>Commits = []\<rparr> st of
           ((response, err), st') \<Rightarrow> ((Commits response, err), st'))"

text \<open>\<open>%d\<close> of \<open>fmt.Sprintf\<close>: an integer in decimal.\<close>

fun decimal :: "nat \<Rightarrow> string" where
  "decimal n =
     (if n < 10 then [''0123456789'' ! n]
      else decimal (n div 10) @ [''0123456789'' ! (n mod 10)])"

definition Sprintf_d :: "int \<Rightarrow> string" where
  "Sprintf_d i = (if i < 0 then ''-'' @ decimal (nat (- i)) else decimal (nat i))"

text \<open>
  \<open>NewPullRequest\<close>, the type of the body of \<open>CreatePullRequest\<close>, is declared in another
  file of the package; \<open>body\<close> is its JSON form.
\<close>

definition CreatePullRequest :: "'pr GoType \<Rightarrow> 'w GitHubClient \<Rightarrow> string \<Rightarrow> string \<Rightarrow>
    json \<Rightarrow> 'w net \<Rightarrow> ('pr option \<times> error option) \<times> 'w net" where
  "CreatePullRequest PullRequest c org repo body st =
     (let path = gitHubAPI @ ''/repos/'' @ org @ ''/'' @ repo @ ''/pulls''
      in case Do (api c) ''POST'' path (Some body)
                (Some (unmarshal PullRequest)) (zero PullRequest) st of
           ((res, err), st') \<Rightarrow>
             (if err \<noteq> None then ((None, err), st') else ((Some res, None), st')))"

definition GetPullRequest :: "'pr GoType \<Rightarrow> 'w GitHubClient \<Rightarrow> string \<Rightarrow> string \<Rightarrow>
    int \<Rightarrow> 'w net \<Rightarrow> ('pr option \<times> error option) \<times> 'w net" where
  "GetPullRequest PullRequest c org repo number st =
     (let path = gitHubAPI @ ''/repos/'' @ org @ ''/'' @ repo @ ''/pulls/'' @ Sprintf_d number
      in case Do (api c) ''GET'' path None
                (Some (unmarshal PullRequest)) (zero PullRequest) st of
           ((res, err), st') \<Rightarrow> ((Some res, err), st'))"

subsection \<open>The repository cache\<close>

text \<open>\<open>time.Hour\<close>, in nanoseconds, and the time to live of the repository cache.\<close>

definition Hour :: int where
  "Hour = 3600 * 1000000000"

definition repositoryCacheTTL :: int where
  "repositoryCacheTTL = 24 * Hour"

text \<open>
  Modelled from the spec: \<open>localcache.LocalCache\<close> and \<open>localcache.NewLocalCache\<close>,
  which are not among the sources. A cache of one value on durable storage, made from a
  directory, a name (the key of its entry) and a validity (its time to live).
\<close>

record LocalCache =
  lc_dir :: string
  lc_name :: string
  lc_validity :: int

definition NewLocalCache :: "string \<Rightarrow> string \<Rightarrow> int \<Rightarrow> LocalCache" where
  "NewLocalCache dir name validity = \<lparr>lc_dir = dir, lc_name = name, lc_validity = validity\<rparr>"

text \<open>
  Modelled from the spec: the durable store. In each directory, a key holds no blob, a
  blob that deserialises to an entry (a value and the time it was fetched at), or a blob
  that cannot be read. The state of a cache also says whether the storage accepts writes,
  counts the calls of the compute function, and holds the state the compute function
  acts on.
\<close>

datatype 'v blob = Entry 'v int | Corrupt

record ('v, 's) cache_state =
  disk :: "string \<Rightarrow> string \<rightharpoonup> 'v blob"
  writable :: bool
  computes :: nat
  outside :: 's

text \<open>
  Modelled from the spec: the recomputation step of \<open>localcache.LocalCache.Load\<close>, which
  is not among the sources. After sections 4.3 and 7 of the specification: \<open>load\<close> calls
  the compute function; on success it persists the value with the current time and
  returns it; on failure it propagates the error and writes nothing; a write that fails
  after a successful fetch is surfaced as an error beside the fetched value.
\<close>

definition recompute :: "LocalCache \<Rightarrow> int \<Rightarrow> ('s \<Rightarrow> ('v \<times> error option) \<times> 's) \<Rightarrow>
    ('v, 's) cache_state \<Rightarrow> ('v \<times> error option) \<times> ('v, 's) cache_state" where
  "recompute lc now computeFn st =
     (case computeFn (outside st) of
        ((v, Some err), s') \<Rightarrow>
          ((v, Some err), st\<lparr>computes := Suc (computes st), outside := s'\<rparr>)
      | ((v, None), s') \<Rightarrow>
          (if writable st then
             ((v, None),
              st\<lparr>disk := (disk st)(lc_dir lc := (disk st (lc_dir lc))(lc_name lc \<mapsto> Entry v now)),
                 computes := Suc (computes st), outside := s'\<rparr>)
           else
             ((v, Some (CacheStoreError ''write'')),
              st\<lparr>computes := Suc (computes st), outside := s'\<rparr>)))"

text \<open>
  Modelled from the spec: \<open>localcache.LocalCache.Load\<close>, which is not among the sources.
  After section 4.3 of the specification, per key: an entry is fresh iff
  \<open>now - fetchedAt < TTL\<close>, and a fresh entry is returned without a call of the compute
  function; an absent, stale or unreadable entry is recomputed and overwritten. \<open>now\<close> is
  what the clock reads when \<open>load\<close> is called.
\<close>

definition LocalCache_Load :: "LocalCache \<Rightarrow> int \<Rightarrow> ('s \<Rightarrow> ('v \<times> error option) \<times> 's) \<Rightarrow>
    ('v, 's) cache_state \<Rightarrow> ('v \<times> error option) \<times> ('v, 's) cache_state" where
  "LocalCache_Load lc now computeFn st =
     (case disk st (lc_dir lc) (lc_name lc) of
        Some (Entry v fetchedAt) \<Rightarrow>
          (if now - fetchedAt < lc_validity lc then ((v, None), st)
           else recompute lc now computeFn st)
      | Some Corrupt \<Rightarrow> recompute lc now computeFn st
      | None \<Rightarrow> recompute lc now computeFn st)"

record 'w repositoryCache =
  cache :: LocalCache
  client :: "'w GitHubClient"
  Org :: string

definition NewRepositoryCache :: "'w GitHubClient \<Rightarrow> string \<Rightarrow> string \<Rightarrow> 'w repositoryCache" where
  "NewRepositoryCache cl org cacheDir =
     (let filename = org @ ''-repositories''
      in \<lparr>cache = NewLocalCache cacheDir filename repositoryCacheTTL, client = cl, Org = org\<rparr>)"

text \<open>\<open>repositoryCache.Load\<close>; the debug log line of the compute function is left out.\<close>

definition repositoryCache_Load :: "'w repositoryCache \<Rightarrow> int \<Rightarrow>
    (Repositories, 'w net) cache_state \<Rightarrow>
    (Repositories \<times> error option) \<times> (Repositories, 'w net) cache_state" where
  "repositoryCache_Load r now st =
     LocalCache_Load (cache r) now (\<lambda>s. ListRepositories (client r) (Org r) s) st"

subsection \<open>Requests as sent, and collaborators for the examples\<close>

text \<open>
  The request the pipeline hands to the transport for a client built by \<open>NewClient\<close>: the
  verb, the URL and the data of the call, and the Authorization header of the token.
\<close>

definition authorized :: "oauth2_Token \<Rightarrow> string \<Rightarrow> string \<Rightarrow> json option \<Rightarrow> Request" where
  "authorized tok method url data =
     \<lparr>Method = method, URL = url,
      Header = [''Authorization'' \<mapsto> [TokenType tok @ '' '' @ AccessToken tok]],
      Payload = data\<rparr>"

text \<open>
  A configuration whose token source always gives the same result and whose transport
  always gives the same answer; the world counts the calls of the two.
\<close>

definition mock_config :: "error + oauth2_Token \<Rightarrow> error + Response \<Rightarrow> nat GitHubConfig" where
  "mock_config token answer =
     \<lparr>Token = (\<lambda>w. (token, Suc w)),
      RetryTimeout = 0, HTTPTimeout = 0, InsecureSkipVerify = False, DebugHeaders = False,
      DebugTruncateBytes = 0, RateLimitPerSecond = 0,
      transport = (\<lambda>r w. (answer, Suc w))\<rparr>"

definition bearer :: oauth2_Token where
  "bearer = \<lparr>TokenType = ''Bearer'', AccessToken = ''abc''\<rparr>"

section \<open>Properties\<close>

subsection \<open>The visitor of the client and the pipeline\<close>

lemma visitors_NewClient_fail:
  assumes "Token conf w = (Inl e, w')"
  shows "run_visitors (Visitors (config (api (NewClient conf)))) r w
           = ((r, Some (Wrapped ''token: '' e)), w')"
  using assms by (simp add: NewClient_def NewApiClient_def)

lemma visitors_NewClient_ok:
  assumes "Token conf w = (Inr tok, w')"
  shows "run_visitors (Visitors (config (api (NewClient conf)))) r w
           = ((r\<lparr>Header := (Header r)(''Authorization'' \<mapsto>
                  [TokenType tok @ '' '' @ AccessToken tok])\<rparr>, None), w')"
  using assms by (simp add: NewClient_def NewApiClient_def Header_Set_def)

lemma Transport_NewClient: "Transport (config (api (NewClient conf))) = transport conf"
  by (simp add: NewClient_def NewApiClient_def)

lemma Do_token_fails:
  assumes "Token conf (world st) = (Inl e, w')"
  shows "Do (api (NewClient conf)) verb url data um target st
           = ((target, Some (Wrapped ''token: '' e)), st\<lparr>world := w'\<rparr>)"
  by (simp add: Do_def visitors_NewClient_fail [OF assms])

lemma Do_answer:
  assumes "Token conf (world st) = (Inr tok, w')"
    and "transport conf (authorized tok verb url data) w' = (Inr resp, w'')"
  shows "Do (api (NewClient conf)) verb url data um target st =
           (if 200 \<le> StatusCode resp \<and> StatusCode resp < 300 then
              (case um of
                 None \<Rightarrow> (target, None)
               | Some u \<Rightarrow>
                   (case Content resp of
                      None \<Rightarrow> (target, Some (SerializationError ''response body''))
                    | Some body \<Rightarrow> u body target))
            else (target, Some (APIError (StatusCode resp) (Content resp))),
            \<lparr>world = w'', sent = sent st @ [authorized tok verb url data]\<rparr>)"
  using assms(2)
  by (simp add: Do_def visitors_NewClient_ok [OF assms(1)] Transport_NewClient authorized_def
      split: option.splits)

lemma Do_transport_fails:
  assumes "Token conf (world st) = (Inr tok, w')"
    and "transport conf (authorized tok verb url data) w' = (Inl e, w'')"
  shows "Do (api (NewClient conf)) verb url data um target st =
           ((target, Some e), \<lparr>world = w'', sent = sent st @ [authorized tok verb url data]\<rparr>)"
  using assms(2)
  by (simp add: Do_def visitors_NewClient_ok [OF assms(1)] Transport_NewClient authorized_def)

lemma Do_sent:
  assumes "Token conf (world st) = (Inr tok, w')"
  shows "sent (snd (Do (api (NewClient conf)) verb url data um target st))
           = sent st @ [authorized tok verb url data]"
proof (cases "transport conf (authorized tok verb url data) w'")
  case (Pair res w'')
  show ?thesis
  proof (cases res)
    case (Inl e)
    with Pair show ?thesis by (simp add: Do_transport_fails [OF assms])
  next
    case (Inr resp)
    with Pair show ?thesis by (simp add: Do_answer [OF assms])
  qed
qed

lemma Token_mock: "Token (mock_config token answer) w = (token, Suc w)"
  by (simp add: mock_config_def)

lemma transport_mock: "transport (mock_config token answer) r w = (answer, Suc w)"
  by (simp add: mock_config_def)

text \<open>
  C1. A client built by \<open>NewClient\<close> has exactly one request visitor. When the token
  source succeeds with a token, the visitor succeeds too, leaves the world as the token
  source left it, changes nothing of the request but its Authorization header, and that
  header reads \<open><TokenType> <AccessToken>\<close> of the token returned for this call. (By
  \<open>Do_sent\<close>, this is the request the pipeline hands to the transport.)
\<close>

theorem NewClient_sets_authorization:
  assumes "Token conf w = (Inr tok, w')"
  shows "\<exists>v. Visitors (config (api (NewClient conf))) = [v]
            \<and> v r w = ((r\<lparr>Header := (Header r)(''Authorization'' \<mapsto>
                                [TokenType tok @ '' '' @ AccessToken tok])\<rparr>, None), w')
            \<and> Header_Get (Header (fst (fst (v r w)))) ''Authorization''
                = TokenType tok @ '' '' @ AccessToken tok"
  using assms
  by (simp add: NewClient_def NewApiClient_def Header_Set_def Header_Get_def)

text \<open>
  An instance: the token \<open>Bearer\<close>/\<open>abc\<close> gives the header \<open>Bearer abc\<close>.
\<close>

theorem NewClient_sets_authorization_witness:
  "\<exists>v. Visitors (config (api (NewClient (mock_config (Inr bearer) (Inl (Failure ''offline'')))))) = [v]
        \<and> snd (v \<lparr>Method = ''GET'', URL = ''u'', Header = Map.empty, Payload = None\<rparr> 0) = 1
        \<and> Header_Get (Header (fst (fst
             (v \<lparr>Method = ''GET'', URL = ''u'', Header = Map.empty, Payload = None\<rparr> 0))))
             ''Authorization'' = ''Bearer abc''"
proof -
  have tok: "Token (mock_config (Inr bearer) (Inl (Failure ''offline''))) 0 = (Inr bearer, 1)"
    by (simp add: Token_mock)
  from NewClient_sets_authorization [OF tok,
      of "\<lparr>Method = ''GET'', URL = ''u'', Header = Map.empty, Payload = None\<rparr>"]
  show ?thesis by (auto simp: bearer_def)
qed

text \<open>
  C2. When the token source fails with an error \<open>e\<close>, a call through a client built by
  \<open>NewClient\<close> aborts: it returns the error \<open>fmt.Errorf("token: %w", e)\<close>, which wraps
  \<open>e\<close>, leaves the target as it was, and hands no request to the transport: the list of
  requests sent is unchanged, and the world is as the token source left it.
\<close>

theorem token_failure_aborts:
  assumes "Token conf (world st) = (Inl e, w')"
  shows "Do (api (NewClient conf)) verb url data um target st
           = ((target, Some (Wrapped ''token: '' e)), st\<lparr>world := w'\<rparr>)
         \<and> Unwrap (Wrapped ''token: '' e) = Some e
         \<and> sent (snd (Do (api (NewClient conf)) verb url data um target st)) = sent st"
  by (simp add: Do_token_fails [OF assms])

text \<open>
  An instance: a token source that fails with \<open>expired\<close>.
\<close>

theorem token_failure_aborts_witness:
  "Do (api (NewClient (mock_config (Inl (Failure ''expired''))
              (Inr \<lparr>StatusCode = 200, Content = None\<rparr>))))
      ''GET'' ''u'' None (Some unmarshal_int) 7 \<lparr>world = 0, sent = []\<rparr>
   = ((7, Some (Wrapped ''token: '' (Failure ''expired''))), \<lparr>world = 1, sent = []\<rparr>)"
proof -
  let ?conf = "mock_config (Inl (Failure ''expired'')) (Inr \<lparr>StatusCode = 200, Content = None\<rparr>)"
  have tok: "Token ?conf (world \<lparr>world = 0, sent = []\<rparr>) = (Inl (Failure ''expired''), 1)"
    by (simp add: Token_mock)
  from token_failure_aborts [OF tok, where verb = "''GET''" and url = "''u''" and data = None
      and um = "Some unmarshal_int" and target = 7]
  show ?thesis by simp
qed

subsection \<open>The operations of the client\<close>

lemma first_error_None [simp]: "first_error None e = e"
  by (simp add: first_error_def)

lemma decode_members_commits_only:
  "decode_members (compare_response_member T) kvs r
     = decode_members (compare_response_member T)
         (filter (\<lambda>(k, v). equalFold k ''commits'') kvs) r"
proof (induction kvs arbitrary: r)
  case Nil
  show ?case by simp
next
  case (Cons kv kvs)
  obtain k v where kv: "kv = (k, v)" by (cases kv)
  show ?case
  proof (cases "equalFold k ''commits''")
    case True
    then show ?thesis using Cons.IH by (simp add: kv split: prod.splits)
  next
    case False
    then have "compare_response_member T k v r = (r, None)"
      by (simp add: compare_response_member_def)
    then show ?thesis using False Cons.IH by (simp add: kv)
  qed
qed

text \<open>
  C6. \<open>CompareCommits\<close> returns the \<open>Commits\<close> field of the response struct the
  pipeline filled, together with the pipeline's error, and its pipeline call is a GET of
  \<open>/repos/{org}/{repo}/compare/{base}...{head}\<close> under the API's base URL. When the
  remote answers 2xx with a JSON object, exactly that request has been sent, and the
  commits and the error returned are those of decoding the members of the object that
  are named \<open>commits\<close> (up to the case of letters, as \<open>encoding/json\<close> matches keys):
  every other member of the comparison is discarded.
\<close>

theorem CompareCommits_commits_field:
  "fst (CompareCommits T c org repo base head st)
     = (Commits (fst (fst (Do (api c) ''GET''
          (gitHubAPI @ ''/repos/'' @ org @ ''/'' @ repo @ ''/compare/'' @ base @ ''...'' @ head)
          None (Some (unmarshal_struct (compare_response_member T))) \<lparr>Commits = []\<rparr> st))),
        snd (fst (Do (api c) ''GET''
          (gitHubAPI @ ''/repos/'' @ org @ ''/'' @ repo @ ''/compare/'' @ base @ ''...'' @ head)
          None (Some (unmarshal_struct (compare_response_member T))) \<lparr>Commits = []\<rparr> st)))
   \<and> (Token conf (world st) = (Inr tok, w')
        \<and> transport conf
           (authorized tok ''GET''
              (gitHubAPI @ ''/repos/'' @ org @ ''/'' @ repo @ ''/compare/'' @ base @ ''...'' @ head)
              None) w'
          = (Inr \<lparr>StatusCode = s, Content = Some (JObject kvs)\<rparr>, w'')
        \<and> 200 \<le> s \<and> s < 300
      \<longrightarrow> CompareCommits T (NewClient conf) org repo base head st =
           (case decode_members (compare_response_member T)
                   (filter (\<lambda>(k, v). equalFold k ''commits'') kvs) \<lparr>Commits = []\<rparr> of
              (response, err) \<Rightarrow>
                ((Commits response, err),
                 \<lparr>world = w'',
                  sent = sent st @ [authorized tok ''GET''
                    (gitHubAPI @ ''/repos/'' @ org @ ''/'' @ repo @ ''/compare/''
                       @ base @ ''...'' @ head) None]\<rparr>)))"
proof (intro conjI impI)
  show "fst (CompareCommits T c org repo base head st)
     = (Commits (fst (fst (Do (api c) ''GET''
          (gitHubAPI @ ''/repos/'' @ org @ ''/'' @ repo @ ''/compare/'' @ base @ ''...'' @ head)
          None (Some (unmarshal_struct (compare_response_member T))) \<lparr>Commits = []\<rparr> st))),
        snd (fst (Do (api c) ''GET''
          (gitHubAPI @ ''/repos/'' @ org @ ''/'' @ repo @ ''/compare/'' @ base @ ''...'' @ head)
          None (Some (unmarshal_struct (compare_response_member T))) \<lparr>Commits = []\<rparr> st)))"
    unfolding CompareCommits_def Let_def by (simp split: prod.splits)
next
  let ?path = "gitHubAPI @ ''/repos/'' @ org @ ''/'' @ repo @ ''/compare/'' @ base @ ''...'' @ head"
  let ?u = "unmarshal_struct (compare_response_member T)"
  assume H: "Token conf (world st) = (Inr tok, w')
        \<and> transport conf (authorized tok ''GET'' ?path None) w'
          = (Inr \<lparr>StatusCode = s, Content = Some (JObject kvs)\<rparr>, w'')
        \<and> 200 \<le> s \<and> s < 300"
  then have tok: "Token conf (world st) = (Inr tok, w')"
    and tr: "transport conf (authorized tok ''GET'' ?path None) w'
          = (Inr \<lparr>StatusCode = s, Content = Some (JObject kvs)\<rparr>, w'')"
    and s: "200 \<le> s" "s < 300"
    by blast+
  have D: "Do (api (NewClient conf)) ''GET'' ?path None (Some ?u) \<lparr>Commits = []\<rparr> st
             = (decode_members (compare_response_member T) kvs \<lparr>Commits = []\<rparr>,
                \<lparr>world = w'', sent = sent st @ [authorized tok ''GET'' ?path None]\<rparr>)"
    using Do_answer [OF tok tr, of "Some ?u" "\<lparr>Commits = []\<rparr>"] s
    by (simp add: unmarshal_struct_def)
  show "CompareCommits T (NewClient conf) org repo base head st =
           (case decode_members (compare_response_member T)
                   (filter (\<lambda>(k, v). equalFold k ''commits'') kvs) \<lparr>Commits = []\<rparr> of
              (response, err) \<Rightarrow>
                ((Commits response, err),
                 \<lparr>world = w'', sent = sent st @ [authorized tok ''GET'' ?path None]\<rparr>))"
    unfolding CompareCommits_def Let_def D
    by (simp add: decode_members_commits_only [of T kvs] split: prod.splits)
qed

text \<open>
  An instance: of the members \<open>url\<close>, \<open>commits\<close> and \<open>total_commits\<close>, only the two
  commits come back.
\<close>

theorem CompareCommits_commits_field_witness:
  "CompareCommits \<lparr>zero = [], unmarshal = unmarshal_string\<rparr>
     (NewClient (mock_config (Inr bearer)
        (Inr \<lparr>StatusCode = 200, Content = Some (JObject
           [(''url'', JString ''u''),
            (''commits'', JArray [JString ''a1'', JString ''b2'']),
            (''total_commits'', JNumber 2)])\<rparr>)))
     ''acme'' ''widget'' ''v1'' ''v2'' \<lparr>world = 0, sent = []\<rparr>
   = ((([''a1'', ''b2''], None)),
      \<lparr>world = 2,
       sent = [authorized bearer ''GET''
                 ''https://api.github.com/repos/acme/widget/compare/v1...v2'' None]\<rparr>)"
proof -
  let ?kvs = "[(''url'', JString ''u''),
            (''commits'', JArray [JString ''a1'', JString ''b2'']),
            (''total_commits'', JNumber 2)]"
  let ?conf = "mock_config (Inr bearer) (Inr \<lparr>StatusCode = 200, Content = Some (JObject ?kvs)\<rparr>)"
  let ?st = "\<lparr>world = 0, sent = []\<rparr> :: nat net"
  let ?T = "\<lparr>zero = [], unmarshal = unmarshal_string\<rparr> :: string GoType"
  have tok: "Token ?conf (world ?st) = (Inr bearer, 1)"
    by (simp add: Token_mock)
  have tr: "transport ?conf (authorized bearer ''GET''
              (gitHubAPI @ ''/repos/'' @ ''acme'' @ ''/'' @ ''widget'' @ ''/compare/''
                 @ ''v1'' @ ''...'' @ ''v2'') None) 1
            = (Inr \<lparr>StatusCode = 200, Content = Some (JObject ?kvs)\<rparr>, 2)"
    by (simp add: transport_mock)
  have F: "filter (\<lambda>(k, v). equalFold k ''commits'') ?kvs
           = [(''commits'', JArray [JString ''a1'', JString ''b2''])]"
    by (simp add: equalFold_def to_lower_def)
  have E: "equalFold ''commits'' ''commits''"
    by (simp add: equalFold_def)
  from CompareCommits_commits_field [where T = ?T and c = "NewClient ?conf" and conf = ?conf
      and st = ?st and org = "''acme''" and repo = "''widget''" and base = "''v1''"
      and head = "''v2''" and tok = bearer and w' = 1 and w'' = 2 and s = 200 and kvs = ?kvs]
    tok tr
  have "CompareCommits ?T (NewClient ?conf) ''acme'' ''widget'' ''v1'' ''v2'' ?st =
           (case decode_members (compare_response_member ?T)
                   (filter (\<lambda>(k, v). equalFold k ''commits'') ?kvs) \<lparr>Commits = []\<rparr> of
              (response, err) \<Rightarrow>
                ((Commits response, err),
                 \<lparr>world = 2,
                  sent = sent ?st @ [authorized bearer ''GET''
                    (gitHubAPI @ ''/repos/'' @ ''acme'' @ ''/'' @ ''widget'' @ ''/compare/''
                       @ ''v1'' @ ''...'' @ ''v2'') None]\<rparr>))"
    by simp
  then show ?thesis
    unfolding F
    by (simp add: compare_response_member_def E set_field_def unmarshal_slice_def
        unmarshal_string_def gitHubAPI_def)
qed

lemma unmarshal_scenario:
  "unmarshal_Repositories
     (JArray [JObject [(''name'', JString ''x''), (''stargazers_count'', JNumber 5)]]) []
   = ([zero_Repo\<lparr>Name := ''x'', Stars := 5\<rparr>], None)"
  by (simp add: unmarshal_Repositories_def unmarshal_slice_def unmarshal_Repo_def
      unmarshal_struct_def Repo_member_def set_field_def unmarshal_string_def
      unmarshal_int_def equalFold_def to_lower_def)

text \<open>
  C7. \<open>ListRepositories\<close> is the pipeline call that is a GET of \<open>/users/{org}/repos\<close>
  under the API's base URL and unmarshals the response into a \<open>Repositories\<close> slice.
  The body \<open>[{"name":"x","stargazers_count":5}]\<close> unmarshals to a slice of length 1
  whose element has \<open>Name\<close> \<open>x\<close>, \<open>Stars\<close> 5 and every other field zero. When the
  remote answers 2xx with that body, exactly that request has been sent, and
  \<open>ListRepositories\<close> returns that slice and no error.
\<close>

theorem ListRepositories_scenario:
  "ListRepositories c org st
     = Do (api c) ''GET'' (gitHubAPI @ ''/users/'' @ org @ ''/repos'') None
         (Some unmarshal_Repositories) [] st
   \<and> unmarshal_Repositories
        (JArray [JObject [(''name'', JString ''x''), (''stargazers_count'', JNumber 5)]]) []
       = ([zero_Repo\<lparr>Name := ''x'', Stars := 5\<rparr>], None)
   \<and> (Token conf (world st) = (Inr tok, w')
        \<and> transport conf
             (authorized tok ''GET'' (gitHubAPI @ ''/users/'' @ org @ ''/repos'') None) w'
           = (Inr \<lparr>StatusCode = s, Content = Some
                (JArray [JObject [(''name'', JString ''x''), (''stargazers_count'', JNumber 5)]])\<rparr>,
              w'')
        \<and> 200 \<le> s \<and> s < 300
      \<longrightarrow> ListRepositories (NewClient conf) org st =
           (([zero_Repo\<lparr>Name := ''x'', Stars := 5\<rparr>], None),
            \<lparr>world = w'',
             sent = sent st @
               [authorized tok ''GET'' (gitHubAPI @ ''/users/'' @ org @ ''/repos'') None]\<rparr>))"
proof (intro conjI impI)
  show "ListRepositories c org st
     = Do (api c) ''GET'' (gitHubAPI @ ''/users/'' @ org @ ''/repos'') None
         (Some unmarshal_Repositories) [] st"
    unfolding ListRepositories_def Let_def by (rule refl)
next
  show "unmarshal_Repositories
        (JArray [JObject [(''name'', JString ''x''), (''stargazers_count'', JNumber 5)]]) []
       = ([zero_Repo\<lparr>Name := ''x'', Stars := 5\<rparr>], None)"
    by (rule unmarshal_scenario)
next
  let ?url = "gitHubAPI @ ''/users/'' @ org @ ''/repos''"
  let ?body = "JArray [JObject [(''name'', JString ''x''), (''stargazers_count'', JNumber 5)]]"
  assume "Token conf (world st) = (Inr tok, w')
        \<and> transport conf (authorized tok ''GET'' ?url None) w'
           = (Inr \<lparr>StatusCode = s, Content = Some ?body\<rparr>, w'')
        \<and> 200 \<le> s \<and> s < 300"
  then have tok: "Token conf (world st) = (Inr tok, w')"
    and tr: "transport conf (authorized tok ''GET'' ?url None) w'
           = (Inr \<lparr>StatusCode = s, Content = Some ?body\<rparr>, w'')"
    and s: "200 \<le> s" "s < 300"
    by blast+
  have D: "Do (api (NewClient conf)) ''GET'' ?url None (Some unmarshal_Repositories) [] st
             = (([zero_Repo\<lparr>Name := ''x'', Stars := 5\<rparr>], None),
                \<lparr>world = w'', sent = sent st @ [authorized tok ''GET'' ?url None]\<rparr>)"
    using Do_answer [OF tok tr, of "Some unmarshal_Repositories" "[]"] s
    by (simp add: unmarshal_scenario)
  show "ListRepositories (NewClient conf) org st =
           (([zero_Repo\<lparr>Name := ''x'', Stars := 5\<rparr>], None),
            \<lparr>world = w'', sent = sent st @ [authorized tok ''GET'' ?url None]\<rparr>)"
    unfolding ListRepositories_def Let_def D by simp
qed

text \<open>
  An instance: the organisation \<open>acme\<close> and the status 200.
\<close>

theorem ListRepositories_scenario_witness:
  "ListRepositories
     (NewClient (mock_config (Inr bearer)
        (Inr \<lparr>StatusCode = 200, Content = Some
           (JArray [JObject [(''name'', JString ''x''), (''stargazers_count'', JNumber 5)]])\<rparr>)))
     ''acme'' \<lparr>world = 0, sent = []\<rparr>
   = (([zero_Repo\<lparr>Name := ''x'', Stars := 5\<rparr>], None),
      \<lparr>world = 2,
       sent = [authorized bearer ''GET'' ''https://api.github.com/users/acme/repos'' None]\<rparr>)"
proof -
  let ?body = "JArray [JObject [(''name'', JString ''x''), (''stargazers_count'', JNumber 5)]]"
  let ?conf = "mock_config (Inr bearer) (Inr \<lparr>StatusCode = 200, Content = Some ?body\<rparr>)"
  let ?st = "\<lparr>world = 0, sent = []\<rparr> :: nat net"
  have tok: "Token ?conf (world ?st) = (Inr bearer, 1)"
    by (simp add: Token_mock)
  have tr: "transport ?conf
              (authorized bearer ''GET'' (gitHubAPI @ ''/users/'' @ ''acme'' @ ''/repos'') None) 1
            = (Inr \<lparr>StatusCode = 200, Content = Some ?body\<rparr>, 2)"
    by (simp add: transport_mock)
  from tok tr ListRepositories_scenario [where c = "NewClient ?conf" and conf = ?conf
      and st = ?st and org = "''acme''" and tok = bearer and w' = 1 and w'' = 2 and s = 200,
      THEN conjunct2, THEN conjunct2]
  have "ListRepositories (NewClient ?conf) ''acme'' ?st =
           (([zero_Repo\<lparr>Name := ''x'', Stars := 5\<rparr>], None),
            \<lparr>world = 2,
             sent = sent ?st @
               [authorized bearer ''GET'' (gitHubAPI @ ''/users/'' @ ''acme'' @ ''/repos'') None]\<rparr>)"
    by simp
  then show ?thesis by (simp add: gitHubAPI_def)
qed

text \<open>
  C8. When the remote answers \<open>GetRepo\<close> with a status that is not 2xx, the operation
  returns an API error carrying that status (and the body), and the repository returned
  is the zero value: the body is not unmarshalled into it.
\<close>

theorem GetRepo_non_2xx:
  assumes "Token conf (world st) = (Inr tok, w')"
    and "transport conf
           (authorized tok ''GET'' (gitHubAPI @ ''/repos/'' @ org @ ''/'' @ name) None) w'
         = (Inr resp, w'')"
    and "StatusCode resp < 200 \<or> 300 \<le> StatusCode resp"
  shows "fst (GetRepo (NewClient conf) org name st)
           = (zero_Repo, Some (APIError (StatusCode resp) (Content resp)))"
proof -
  let ?url = "gitHubAPI @ ''/repos/'' @ org @ ''/'' @ name"
  have D: "Do (api (NewClient conf)) ''GET'' ?url None (Some unmarshal_Repo) zero_Repo st
             = ((zero_Repo, Some (APIError (StatusCode resp) (Content resp))),
                \<lparr>world = w'', sent = sent st @ [authorized tok ''GET'' ?url None]\<rparr>)"
    using Do_answer [OF assms(1,2), of "Some unmarshal_Repo" zero_Repo] assms(3)
    by auto
  show ?thesis
    unfolding GetRepo_def Let_def D by simp
qed

text \<open>
  An instance: the status 403, with a body that has a \<open>name\<close> member.
\<close>

theorem GetRepo_non_2xx_witness:
  "fst (GetRepo
     (NewClient (mock_config (Inr bearer)
        (Inr \<lparr>StatusCode = 403, Content = Some
           (JObject [(''name'', JString ''secret''), (''message'', JString ''Forbidden'')])\<rparr>)))
     ''acme'' ''widget'' \<lparr>world = 0, sent = []\<rparr>)
   = (zero_Repo, Some (APIError 403 (Some
        (JObject [(''name'', JString ''secret''), (''message'', JString ''Forbidden'')]))))"
proof -
  let ?answer = "Inr \<lparr>StatusCode = 403, Content = Some
           (JObject [(''name'', JString ''secret''), (''message'', JString ''Forbidden'')])\<rparr>
         :: error + Response"
  let ?conf = "mock_config (Inr bearer) ?answer"
  let ?st = "\<lparr>world = 0, sent = []\<rparr> :: nat net"
  have tok: "Token ?conf (world ?st) = (Inr bearer, 1)"
    by (simp add: Token_mock)
  have tr: "transport ?conf
              (authorized bearer ''GET'' (gitHubAPI @ ''/repos/'' @ ''acme'' @ ''/'' @ ''widget'') None) 1
            = (Inr \<lparr>StatusCode = 403, Content = Some
                 (JObject [(''name'', JString ''secret''), (''message'', JString ''Forbidden'')])\<rparr>,
               2)"
    by (simp add: transport_mock)
  from GetRepo_non_2xx [OF tok tr]
  show ?thesis by simp
qed

text \<open>
  C9. When the pipeline call of the operation returns an error \<open>e\<close>:
  \<open>CreatePullRequest\<close> returns the nil pointer beside \<open>e\<close>, whereas \<open>CreateRelease\<close> and
  \<open>GetPullRequest\<close> return a pointer that is not nil beside \<open>e\<close>.
\<close>

theorem error_path_pointers:
  "(snd (fst (Do (api c) ''POST'' (gitHubAPI @ ''/repos/'' @ org @ ''/'' @ repo @ ''/pulls'')
                (Some body) (Some (unmarshal PullRequest)) (zero PullRequest) st)) = Some e
      \<longrightarrow> fst (CreatePullRequest PullRequest c org repo body st) = (None, Some e))
   \<and> (snd (fst (Do (api c) ''POST'' (gitHubAPI @ ''/repos/'' @ org @ ''/'' @ repo @ ''/releases'')
                (Some (CreateReleaseRequest_json req)) (Some (unmarshal Release))
                (zero Release) st)) = Some e
      \<longrightarrow> (\<exists>res. fst (CreateRelease Release c org repo req st) = (Some res, Some e)))
   \<and> (snd (fst (Do (api c) ''GET''
                (gitHubAPI @ ''/repos/'' @ org @ ''/'' @ repo @ ''/pulls/'' @ Sprintf_d number)
                None (Some (unmarshal PullRequest)) (zero PullRequest) st)) = Some e
      \<longrightarrow> (\<exists>res. fst (GetPullRequest PullRequest c org repo number st) = (Some res, Some e)))"
proof (intro conjI impI)
  assume "snd (fst (Do (api c) ''POST'' (gitHubAPI @ ''/repos/'' @ org @ ''/'' @ repo @ ''/pulls'')
                (Some body) (Some (unmarshal PullRequest)) (zero PullRequest) st)) = Some e"
  then show "fst (CreatePullRequest PullRequest c org repo body st) = (None, Some e)"
    unfolding CreatePullRequest_def Let_def by (auto split: prod.splits)
next
  assume "snd (fst (Do (api c) ''POST'' (gitHubAPI @ ''/repos/'' @ org @ ''/'' @ repo @ ''/releases'')
                (Some (CreateReleaseRequest_json req)) (Some (unmarshal Release))
                (zero Release) st)) = Some e"
  then show "\<exists>res. fst (CreateRelease Release c org repo req st) = (Some res, Some e)"
    unfolding CreateRelease_def Let_def by (auto split: prod.splits)
next
  assume "snd (fst (Do (api c) ''GET''
                (gitHubAPI @ ''/repos/'' @ org @ ''/'' @ repo @ ''/pulls/'' @ Sprintf_d number)
                None (Some (unmarshal PullRequest)) (zero PullRequest) st)) = Some e"
  then show "\<exists>res. fst (GetPullRequest PullRequest c org repo number st) = (Some res, Some e)"
    unfolding GetPullRequest_def Let_def by (auto split: prod.splits)
qed

text \<open>
  An instance: the three operations against a token source that fails.
\<close>

theorem error_path_pointers_witness:
  "fst (CreatePullRequest \<lparr>zero = 0, unmarshal = unmarshal_int\<rparr>
          (NewClient (mock_config (Inl (Failure ''expired'')) (Inl (Failure ''offline''))))
          ''acme'' ''widget'' JNull \<lparr>world = 0, sent = []\<rparr>)
     = (None, Some (Wrapped ''token: '' (Failure ''expired'')))
   \<and> (\<exists>res. fst (CreateRelease \<lparr>zero = 0, unmarshal = unmarshal_int\<rparr>
          (NewClient (mock_config (Inl (Failure ''expired'')) (Inl (Failure ''offline''))))
          ''acme'' ''widget''
          \<lparr>TagName = ''v1.0'', Name' = [], Body = [], Draft = False, Prerelease = False,
           GenerateReleaseNotes = False, DiscussionCategoryName = []\<rparr>
          \<lparr>world = 0, sent = []\<rparr>)
     = (Some res, Some (Wrapped ''token: '' (Failure ''expired''))))
   \<and> (\<exists>res. fst (GetPullRequest \<lparr>zero = 0, unmarshal = unmarshal_int\<rparr>
          (NewClient (mock_config (Inl (Failure ''expired'')) (Inl (Failure ''offline''))))
          ''acme'' ''widget'' 7 \<lparr>world = 0, sent = []\<rparr>)
     = (Some res, Some (Wrapped ''token: '' (Failure ''expired''))))"
proof -
  let ?conf = "mock_config (Inl (Failure ''expired'')) (Inl (Failure ''offline''))"
  let ?st = "\<lparr>world = 0, sent = []\<rparr> :: nat net"
  let ?P = "\<lparr>zero = 0, unmarshal = unmarshal_int\<rparr> :: int GoType"
  let ?req = "\<lparr>TagName = ''v1.0'', Name' = [], Body = [], Draft = False, Prerelease = False,
           GenerateReleaseNotes = False, DiscussionCategoryName = []\<rparr>"
  have tok: "Token ?conf (world ?st) = (Inl (Failure ''expired''), 1)"
    by (simp add: Token_mock)
  note D = Do_token_fails [OF tok]
  from error_path_pointers [where c = "NewClient ?conf" and st = ?st and PullRequest = ?P
      and Release = ?P and org = "''acme''" and repo = "''widget''" and body = JNull
      and req = ?req and number = 7 and e = "Wrapped ''token: '' (Failure ''expired'')"]
  show ?thesis
    unfolding D by simp
qed

lemma omitempty_string_member:
  "(k, v) \<in> set (omitempty_string k' s) \<longleftrightarrow> k = k' \<and> s \<noteq> [] \<and> v = JString s"
  by (auto simp: omitempty_string_def)

lemma omitempty_bool_member:
  "(k, v) \<in> set (omitempty_bool k' b) \<longleftrightarrow> k = k' \<and> b \<and> v = JBool True"
  by (auto simp: omitempty_bool_def)

lemma member_iff:
  "(k, v) \<in> set (CreateReleaseRequest_members req) \<longleftrightarrow>
     k = ''tag_name'' \<and> TagName req \<noteq> [] \<and> v = JString (TagName req)
   \<or> k = ''name'' \<and> Name' req \<noteq> [] \<and> v = JString (Name' req)
   \<or> k = ''body'' \<and> Body req \<noteq> [] \<and> v = JString (Body req)
   \<or> k = ''draft'' \<and> Draft req \<and> v = JBool True
   \<or> k = ''prerelease'' \<and> Prerelease req \<and> v = JBool True
   \<or> k = ''generate_release_notes'' \<and> GenerateReleaseNotes req \<and> v = JBool True
   \<or> k = ''discussion_category_name'' \<and> DiscussionCategoryName req \<noteq> []
       \<and> v = JString (DiscussionCategoryName req)"
  unfolding CreateReleaseRequest_members_def set_append Un_iff
    omitempty_string_member omitempty_bool_member
  by (simp only: disj_assoc)

text \<open>
  C10. The data that \<open>CreateRelease\<close> gives to its pipeline call, a POST, is the JSON
  object of the \<open>CreateReleaseRequest\<close>, in which a member is present exactly when its
  field is not the zero value, with the value of the field: there is no member for a
  field that is the empty string or \<open>false\<close>. In particular the object never holds
  \<open>draft\<close> or \<open>prerelease\<close> with the value \<open>false\<close>. When the token source succeeds,
  the request sent carries exactly this object.
\<close>

theorem CreateRelease_payload:
  "CreateRelease R c org repo req st
     = (case Do (api c) ''POST'' (gitHubAPI @ ''/repos/'' @ org @ ''/'' @ repo @ ''/releases'')
               (Some (JObject (CreateReleaseRequest_members req)))
               (Some (unmarshal R)) (zero R) st of
          ((res, err), st') \<Rightarrow> ((Some res, err), st'))
   \<and> (\<forall>k v. (k, v) \<in> set (CreateReleaseRequest_members req) \<longleftrightarrow>
               k = ''tag_name'' \<and> TagName req \<noteq> [] \<and> v = JString (TagName req)
             \<or> k = ''name'' \<and> Name' req \<noteq> [] \<and> v = JString (Name' req)
             \<or> k = ''body'' \<and> Body req \<noteq> [] \<and> v = JString (Body req)
             \<or> k = ''draft'' \<and> Draft req \<and> v = JBool True
             \<or> k = ''prerelease'' \<and> Prerelease req \<and> v = JBool True
             \<or> k = ''generate_release_notes'' \<and> GenerateReleaseNotes req \<and> v = JBool True
             \<or> k = ''discussion_category_name'' \<and> DiscussionCategoryName req \<noteq> []
                 \<and> v = JString (DiscussionCategoryName req))
   \<and> (''draft'', JBool False) \<notin> set (CreateReleaseRequest_members req)
   \<and> (''prerelease'', JBool False) \<notin> set (CreateReleaseRequest_members req)
   \<and> (Token conf (world st) = (Inr tok, w')
      \<longrightarrow> sent (snd (CreateRelease R (NewClient conf) org repo req st))
           = sent st @ [authorized tok ''POST''
               (gitHubAPI @ ''/repos/'' @ org @ ''/'' @ repo @ ''/releases'')
               (Some (JObject (CreateReleaseRequest_members req)))])"
proof -
  let ?url = "gitHubAPI @ ''/repos/'' @ org @ ''/'' @ repo @ ''/releases''"
  have C: "CreateRelease R c org repo req st
     = (case Do (api c) ''POST'' ?url (Some (JObject (CreateReleaseRequest_members req)))
               (Some (unmarshal R)) (zero R) st of
          ((res, err), st') \<Rightarrow> ((Some res, err), st'))" for c :: "'b GitHubClient" and st
    unfolding CreateRelease_def Let_def CreateReleaseRequest_json_def by (rule refl)
  have S: "sent (snd (CreateRelease R (NewClient conf) org repo req st))
           = sent st @ [authorized tok ''POST'' ?url
               (Some (JObject (CreateReleaseRequest_members req)))]"
    if tok: "Token conf (world st) = (Inr tok, w')"
  proof -
    let ?D = "Do (api (NewClient conf)) ''POST'' ?url
                (Some (JObject (CreateReleaseRequest_members req)))
                (Some (unmarshal R)) (zero R) st"
    have "snd (CreateRelease R (NewClient conf) org repo req st) = snd ?D"
      unfolding C by (simp split: prod.splits)
    then show ?thesis
      using Do_sent [OF tok, of "''POST''" ?url
          "Some (JObject (CreateReleaseRequest_members req))" "Some (unmarshal R)" "zero R"]
      by (simp only:)
  qed
  have D: "(''draft'', JBool False) \<notin> set (CreateReleaseRequest_members req)"
    unfolding member_iff by simp
  have P: "(''prerelease'', JBool False) \<notin> set (CreateReleaseRequest_members req)"
    unfolding member_iff by simp
  show ?thesis
  proof (intro conjI allI impI)
    show "CreateRelease R c org repo req st
     = (case Do (api c) ''POST'' ?url (Some (JObject (CreateReleaseRequest_members req)))
               (Some (unmarshal R)) (zero R) st of
          ((res, err), st') \<Rightarrow> ((Some res, err), st'))"
      by (rule C)
  next
    assume "Token conf (world st) = (Inr tok, w')"
    then show "sent (snd (CreateRelease R (NewClient conf) org repo req st))
           = sent st @ [authorized tok ''POST'' ?url
               (Some (JObject (CreateReleaseRequest_members req)))]"
      by (rule S)
  qed (rule member_iff D P)+
qed

text \<open>
  An instance: a request with only \<open>TagName\<close> set sends \<open>{"tag_name":"v1.0"}\<close>.
\<close>

theorem CreateRelease_payload_witness:
  "sent (snd (CreateRelease \<lparr>zero = [], unmarshal = unmarshal_string\<rparr>
     (NewClient (mock_config (Inr bearer) (Inr \<lparr>StatusCode = 201, Content = Some JNull\<rparr>)))
     ''acme'' ''widget''
     \<lparr>TagName = ''v1.0'', Name' = [], Body = [], Draft = False, Prerelease = False,
      GenerateReleaseNotes = False, DiscussionCategoryName = []\<rparr>
     \<lparr>world = 0, sent = []\<rparr>))
   = [authorized bearer ''POST'' ''https://api.github.com/repos/acme/widget/releases''
        (Some (JObject [(''tag_name'', JString ''v1.0'')]))]"
proof -
  let ?conf = "mock_config (Inr bearer) (Inr \<lparr>StatusCode = 201, Content = Some JNull\<rparr>)"
  let ?st = "\<lparr>world = 0, sent = []\<rparr> :: nat net"
  let ?R = "\<lparr>zero = [], unmarshal = unmarshal_string\<rparr> :: string GoType"
  let ?req = "\<lparr>TagName = ''v1.0'', Name' = [], Body = [], Draft = False, Prerelease = False,
        GenerateReleaseNotes = False, DiscussionCategoryName = []\<rparr>"
  have tok: "Token ?conf (world ?st) = (Inr bearer, 1)"
    by (simp add: Token_mock)
  from tok CreateRelease_payload [where R = ?R and c = "NewClient ?conf" and conf = ?conf
      and st = ?st and org = "''acme''" and repo = "''widget''" and req = ?req
      and tok = bearer and w' = 1,
      THEN conjunct2, THEN conjunct2, THEN conjunct2, THEN conjunct2]
  have "sent (snd (CreateRelease ?R (NewClient ?conf) ''acme'' ''widget'' ?req ?st))
   = sent ?st @ [authorized bearer ''POST''
               (gitHubAPI @ ''/repos/'' @ ''acme'' @ ''/'' @ ''widget'' @ ''/releases'')
               (Some (JObject (CreateReleaseRequest_members ?req)))]"
    by simp
  then show ?thesis
    by (simp add: gitHubAPI_def CreateReleaseRequest_members_def omitempty_string_def
        omitempty_bool_def)
qed

subsection \<open>The repository cache\<close>

lemma recompute_persists:
  assumes "recompute lc t0 f st = ((v, None), st')"
  shows "disk st' (lc_dir lc) (lc_name lc) = Some (Entry v t0)"
  using assms
  by (auto simp: recompute_def split: prod.splits option.splits if_splits)

lemma Load_computed:
  assumes "LocalCache_Load lc t0 f st = (r, st')" and "computes st' = Suc (computes st)"
  shows "recompute lc t0 f st = (r, st')"
  using assms
  by (auto simp: LocalCache_Load_def split: option.splits blob.splits if_splits)

lemma LocalCache_Load_fresh:
  assumes "disk st (lc_dir lc) (lc_name lc) = Some (Entry v t0)" and "t1 - t0 < lc_validity lc"
  shows "LocalCache_Load lc t1 g st = ((v, None), st)"
  using assms by (simp add: LocalCache_Load_def)

lemma LocalCache_Load_hit_after_compute:
  assumes "LocalCache_Load lc t0 f st = ((v, None), st')"
    and "computes st' = Suc (computes st)"
    and "t1 - t0 < lc_validity lc"
  shows "LocalCache_Load lc t1 g st' = ((v, None), st')"
  by (rule LocalCache_Load_fresh [OF recompute_persists [OF Load_computed [OF assms(1,2)]] assms(3)])

lemma LocalCache_Load_absent_error:
  assumes "disk st (lc_dir lc) (lc_name lc) = None"
    and "f (outside st) = ((v, Some e), s')"
  shows "LocalCache_Load lc now f st
           = ((v, Some e), st\<lparr>computes := Suc (computes st), outside := s'\<rparr>)"
  using assms by (simp add: LocalCache_Load_def recompute_def)

lemma validity_NewRepositoryCache:
  "lc_validity (cache (NewRepositoryCache cl org dir)) = 24 * 3600 * 1000000000"
  by (simp add: NewRepositoryCache_def NewLocalCache_def repositoryCacheTTL_def Hour_def)

lemma ListRepositories_token_fails:
  assumes "Token conf (world s) = (Inl e, w')"
  shows "ListRepositories (NewClient conf) org s
           = (([], Some (Wrapped ''token: '' e)), s\<lparr>world := w'\<rparr>)"
  unfolding ListRepositories_def Let_def by (rule Do_token_fails [OF assms])

lemma ListRepositories_empty:
  assumes "Token conf (world s) = (Inr tok, w')"
    and "transport conf
           (authorized tok ''GET'' (gitHubAPI @ ''/users/'' @ org @ ''/repos'') None) w'
         = (Inr \<lparr>StatusCode = 200, Content = Some (JArray [])\<rparr>, w'')"
  shows "ListRepositories (NewClient conf) org s =
           (([], None),
            \<lparr>world = w'',
             sent = sent s @
               [authorized tok ''GET'' (gitHubAPI @ ''/users/'' @ org @ ''/repos'') None]\<rparr>)"
proof -
  let ?url = "gitHubAPI @ ''/users/'' @ org @ ''/repos''"
  have D: "Do (api (NewClient conf)) ''GET'' ?url None (Some unmarshal_Repositories) [] s
             = (([], None), \<lparr>world = w'', sent = sent s @ [authorized tok ''GET'' ?url None]\<rparr>)"
    using Do_answer [OF assms(1,2), of "Some unmarshal_Repositories" "[]"]
    by (simp add: unmarshal_Repositories_def unmarshal_slice_def)
  show ?thesis
    unfolding ListRepositories_def Let_def D by simp
qed

text \<open>
  C3. For every organisation and cache directory: after a load of the repository cache at
  time \<open>t0\<close> that called the compute function and succeeded (so that the value was
  persisted with \<open>fetchedAt = t0\<close>), a load at a time \<open>t1\<close> with \<open>t1 - t0\<close> less
  than 24 hours returns the same value with no error and leaves the whole state as it
  was: the compute function is not called (its counter and the requests sent are
  unchanged) and nothing is written.
\<close>

theorem repositoryCache_hit_within_ttl:
  assumes "repositoryCache_Load (NewRepositoryCache cl org dir) t0 st = ((v, None), st')"
    and "computes st' = Suc (computes st)"
    and "t1 - t0 < 24 * 3600 * 1000000000"
  shows "repositoryCache_Load (NewRepositoryCache cl org dir) t1 st' = ((v, None), st')"
proof -
  let ?r = "NewRepositoryCache cl org dir"
  let ?f = "\<lambda>s. ListRepositories (client ?r) (Org ?r) s"
  have first: "LocalCache_Load (cache ?r) t0 ?f st = ((v, None), st')"
    using assms(1) by (simp only: repositoryCache_Load_def)
  have within: "t1 - t0 < lc_validity (cache ?r)"
    using assms(3) by (simp only: validity_NewRepositoryCache)
  show ?thesis
    unfolding repositoryCache_Load_def
    by (rule LocalCache_Load_hit_after_compute [OF first assms(2) within])
qed

text \<open>
  An instance: the cache of \<open>acme\<close>, empty at first, loaded at time 0 and again one
  nanosecond later.
\<close>

theorem repositoryCache_hit_within_ttl_witness:
  "repositoryCache_Load
     (NewRepositoryCache
        (NewClient (mock_config (Inr bearer)
           (Inr \<lparr>StatusCode = 200, Content = Some (JArray [])\<rparr>)))
        ''acme'' ''/tmp'')
     1
     (snd (repositoryCache_Load
        (NewRepositoryCache
           (NewClient (mock_config (Inr bearer)
              (Inr \<lparr>StatusCode = 200, Content = Some (JArray [])\<rparr>)))
           ''acme'' ''/tmp'')
        0
        \<lparr>disk = (\<lambda>d. Map.empty), writable = True, computes = 0,
         outside = \<lparr>world = 0, sent = []\<rparr>\<rparr>))
   = (([], None),
      snd (repositoryCache_Load
        (NewRepositoryCache
           (NewClient (mock_config (Inr bearer)
              (Inr \<lparr>StatusCode = 200, Content = Some (JArray [])\<rparr>)))
           ''acme'' ''/tmp'')
        0
        \<lparr>disk = (\<lambda>d. Map.empty), writable = True, computes = 0,
         outside = \<lparr>world = 0, sent = []\<rparr>\<rparr>))"
proof -
  let ?conf = "mock_config (Inr bearer) (Inr \<lparr>StatusCode = 200, Content = Some (JArray [])\<rparr>)"
  let ?R = "NewRepositoryCache (NewClient ?conf) ''acme'' ''/tmp''"
  let ?s = "\<lparr>world = 0, sent = []\<rparr> :: nat net"
  let ?st = "\<lparr>disk = (\<lambda>d. Map.empty), writable = True, computes = 0, outside = ?s\<rparr>
               :: (Repositories, nat net) cache_state"
  let ?X = "repositoryCache_Load ?R 0 ?st"
  have tok: "Token ?conf (world ?s) = (Inr bearer, 1)"
    by (simp add: Token_mock)
  have tr: "transport ?conf
              (authorized bearer ''GET'' (gitHubAPI @ ''/users/'' @ ''acme'' @ ''/repos'') None) 1
            = (Inr \<lparr>StatusCode = 200, Content = Some (JArray [])\<rparr>, 2)"
    by (simp add: transport_mock)
  note L = ListRepositories_empty [OF tok tr]
  have X: "fst ?X = ([], None) \<and> computes (snd ?X) = Suc (computes ?st)"
    by (simp add: repositoryCache_Load_def LocalCache_Load_def recompute_def
        NewRepositoryCache_def NewLocalCache_def L)
  then have first: "?X = (([], None), snd ?X)"
    by (simp add: prod_eq_iff)
  have counted: "computes (snd ?X) = Suc (computes ?st)"
    using X by simp
  have within: "(1::int) - 0 < 24 * 3600 * 1000000000"
    by simp
  show ?thesis
    by (rule repositoryCache_hit_within_ttl [OF first counted within])
qed

text \<open>
  C5. When no entry is stored under the key of the cache and the compute function
  (\<open>ListRepositories\<close> of the cache's client and organisation) returns an error, the load
  returns that error and leaves the storage as it was; the key is still absent.
\<close>

theorem repositoryCache_absent_error:
  assumes "disk st (lc_dir (cache r)) (lc_name (cache r)) = None"
    and "ListRepositories (client r) (Org r) (outside st) = ((v, Some e), s')"
  shows "fst (repositoryCache_Load r now st) = (v, Some e)
         \<and> disk (snd (repositoryCache_Load r now st)) = disk st
         \<and> disk (snd (repositoryCache_Load r now st)) (lc_dir (cache r)) (lc_name (cache r)) = None"
proof -
  have "repositoryCache_Load r now st
          = ((v, Some e), st\<lparr>computes := Suc (computes st), outside := s'\<rparr>)"
    unfolding repositoryCache_Load_def
    by (rule LocalCache_Load_absent_error
        [where f = "\<lambda>s. ListRepositories (client r) (Org r) s", OF assms(1) assms(2)])
  then show ?thesis by (simp add: assms(1))
qed

text \<open>
  An instance: the cache of \<open>acme\<close>, empty, with a token source that fails.
\<close>

theorem repositoryCache_absent_error_witness:
  "fst (repositoryCache_Load
     (NewRepositoryCache
        (NewClient (mock_config (Inl (Failure ''expired'')) (Inl (Failure ''offline''))))
        ''acme'' ''/tmp'')
     0
     \<lparr>disk = (\<lambda>d. Map.empty), writable = True, computes = 0,
      outside = \<lparr>world = 0, sent = []\<rparr>\<rparr>)
   = ([], Some (Wrapped ''token: '' (Failure ''expired'')))
   \<and> disk (snd (repositoryCache_Load
     (NewRepositoryCache
        (NewClient (mock_config (Inl (Failure ''expired'')) (Inl (Failure ''offline''))))
        ''acme'' ''/tmp'')
     0
     \<lparr>disk = (\<lambda>d. Map.empty), writable = True, computes = 0,
      outside = \<lparr>world = 0, sent = []\<rparr>\<rparr>)) ''/tmp'' ''acme-repositories'' = None"
proof -
  let ?conf = "mock_config (Inl (Failure ''expired'')) (Inl (Failure ''offline''))"
  let ?R = "NewRepositoryCache (NewClient ?conf) ''acme'' ''/tmp''"
  let ?s = "\<lparr>world = 0, sent = []\<rparr> :: nat net"
  let ?st = "\<lparr>disk = (\<lambda>d. Map.empty), writable = True, computes = 0, outside = ?s\<rparr>
               :: (Repositories, nat net) cache_state"
  have tok: "Token ?conf (world ?s) = (Inl (Failure ''expired''), 1)"
    by (simp add: Token_mock)
  have absent: "disk ?st (lc_dir (cache ?R)) (lc_name (cache ?R)) = None"
    by simp
  have failing: "ListRepositories (client ?R) (Org ?R) (outside ?st)
                   = (([], Some (Wrapped ''token: '' (Failure ''expired''))), ?s\<lparr>world := 1\<rparr>)"
    using ListRepositories_token_fails [OF tok, of "''acme''"]
    by (simp add: NewRepositoryCache_def)
  from repositoryCache_absent_error [OF absent failing, of 0]
  show ?thesis
    by (simp add: NewRepositoryCache_def NewLocalCache_def)
qed

text \<open>
  C4, as amended. The key of the repository cache of an organisation is the name of the
  organisation followed by the fixed suffix \<open>-repositories\<close>; two caches have the same key
  exactly when they are caches of the same organisation, so that there is one slot for
  each organisation.
\<close>

theorem cache_key_is_scope_then_suffix:
  "lc_name (cache (NewRepositoryCache cl org dir)) = org @ ''-repositories''
   \<and> (lc_name (cache (NewRepositoryCache cl org dir))
        = lc_name (cache (NewRepositoryCache cl' org' dir')) \<longleftrightarrow> org = org')"
  by (simp add: NewRepositoryCache_def NewLocalCache_def)

text \<open>
  An instance: the keys of \<open>acme\<close> and \<open>globex\<close>.
\<close>

theorem cache_key_is_scope_then_suffix_witness:
  "lc_name (cache (NewRepositoryCache
      (NewClient (mock_config (Inr bearer) (Inl (Failure ''offline'')))) ''acme'' ''/tmp''))
   = ''acme-repositories''
   \<and> lc_name (cache (NewRepositoryCache
      (NewClient (mock_config (Inr bearer) (Inl (Failure ''offline'')))) ''acme'' ''/tmp''))
     \<noteq> lc_name (cache (NewRepositoryCache
      (NewClient (mock_config (Inr bearer) (Inl (Failure ''offline'')))) ''globex'' ''/tmp''))"
  using cache_key_is_scope_then_suffix
    [where cl = "NewClient (mock_config (Inr bearer) (Inl (Failure ''offline'')))"
       and cl' = "NewClient (mock_config (Inr bearer) (Inl (Failure ''offline'')))"
       and org = "''acme''" and org' = "''globex''" and dir = "''/tmp''" and dir' = "''/tmp''"]
  by auto

text \<open>
  C4, as stated, fails: the key would be a fixed prefix, a hyphen and the organisation,
  but the key of \<open>acme\<close> is \<open>acme-repositories\<close>, which does not end in \<open>-acme\<close>.
\<close>

theorem cache_key_prefix_counterexample:
  "lc_name (cache (NewRepositoryCache
      (NewClient (mock_config (Inr bearer) (Inl (Failure ''offline'')))) ''acme'' ''/tmp''))
   = ''acme-repositories''
   \<and> \<not> suffix ''-acme'' (lc_name (cache (NewRepositoryCache
      (NewClient (mock_config (Inr bearer) (Inl (Failure ''offline'')))) ''acme'' ''/tmp'')))"
  by (simp add: NewRepositoryCache_def NewLocalCache_def suffix_to_prefix)

end
